theory Spec2Isabelle
  imports Main "HOL-Library.Word"
begin

unbundle bit_operations_syntax

section \<open>Data model\<close>

text \<open>
  The simulator keeps all of its state in namespaces of global variables. The variables
  that \<^verbatim>\<open>AGCmain.cpp\<close> and \<^verbatim>\<open>MON.cpp\<close> read or write are the fields of the record
  \<open>agc\<close>; the rest of the global state (the registers and memory arrays of the other
  subsystems) is the extension part of the record, so a subsystem function is a function
  on \<open>'a agc_scheme\<close>. C's \<^verbatim>\<open>unsigned\<close> is a 32-bit word.
\<close>

type_synonym unsigned = "32 word"

text \<open>
  Modelled from the spec: the enumeration \<^verbatim>\<open>cpType\<close> of control pulses is declared in a
  header that is not part of the sources at hand. The spec names the terminator sentinel
  \<^verbatim>\<open>NO_PULSE\<close>; every other pulse (RA, WA, RZ, ...) is \<open>CP k\<close> for its number \<open>k\<close>.
\<close>

datatype cpType = NO_PULSE | CP nat

text \<open>
  Modelled from the spec: the states of the timing pulse generator, declared in
  \<^verbatim>\<open>TPG.h\<close>, which is not part of the sources at hand. The spec lists the state set
  PWRON, STBY, WAIT, TP1, ..., TP12.
\<close>

datatype tpType = STBY | PWRON | TP1 | TP2 | TP3 | TP4 | TP5 | TP6 | TP7 | TP8 | TP9
  | TP10 | TP11 | TP12 | WAIT

text \<open>The monitor switches of \<^verbatim>\<open>MON.cpp\<close> (namespace \<^verbatim>\<open>MON\<close>).\<close>

record MON =
  PURST :: unsigned
  RUN :: unsigned
  STEP :: unsigned
  INST :: unsigned
  FCLK :: unsigned
  SA :: unsigned
  SCL_ENAB :: unsigned

text \<open>
  The global state. An array is a function of its index: \<open>glbl_cp\<close> is
  \<^verbatim>\<open>SEQ::glbl_cp[]\<close>, and the request lines \<open>rupt\<close>, \<open>pcUp\<close> and \<open>pcDn\<close> are
  \<^verbatim>\<open>INT::rupt[]\<close>, \<^verbatim>\<open>CTR::pcUp[]\<close> and \<^verbatim>\<open>CTR::pcDn[]\<close>. A register is the value its
  \<^verbatim>\<open>read()\<close> returns. \<open>READ_BUS\<close> and \<open>WRITE_BUS\<close> are \<^verbatim>\<open>BUS::glbl_READ_BUS\<close> and
  \<^verbatim>\<open>BUS::glbl_WRITE_BUS\<close>, \<open>ALU_BUS\<close> is \<^verbatim>\<open>ALU::glbl_BUS\<close>.
\<close>

record agc =
  mon :: MON
  READ_BUS :: unsigned
  WRITE_BUS :: unsigned
  MEM_DATA_BUS :: unsigned
  MEM_PARITY_BUS :: unsigned
  ALU_BUS :: unsigned
  glbl_cp :: "nat \<Rightarrow> cpType"
  register_SG :: tpType
  register_SNI :: unsigned
  register_OUT1 :: unsigned
  dskyChanged :: bool
  rupt :: "nat \<Rightarrow> unsigned"
  pcUp :: "nat \<Rightarrow> unsigned"
  pcDn :: "nat \<Rightarrow> unsigned"

text \<open>
  The functions and constants of the other subsystems that the two source files use but
  do not define. They are parameters of the model: nothing is assumed about them beyond
  their types. \<open>getEffectiveAddress\<close> and \<open>readMemory\<close> return a value and leave the
  state as it is.
\<close>

record 'a subsystems =
  MAXPULSES :: nat
  controlPulseMatrix :: "'a agc_scheme \<Rightarrow> 'a agc_scheme"
  doexecR :: "cpType \<Rightarrow> 'a agc_scheme \<Rightarrow> 'a agc_scheme"
  doexecR_ALU :: "cpType \<Rightarrow> 'a agc_scheme \<Rightarrow> 'a agc_scheme"
  doexecR_ALU_OR :: "cpType \<Rightarrow> 'a agc_scheme \<Rightarrow> 'a agc_scheme"
  doexecW :: "cpType \<Rightarrow> 'a agc_scheme \<Rightarrow> 'a agc_scheme"
  doexecWP_SCL :: "'a agc_scheme \<Rightarrow> 'a agc_scheme"
  doexecWP_F17 :: "'a agc_scheme \<Rightarrow> 'a agc_scheme"
  doexecWP_F13 :: "'a agc_scheme \<Rightarrow> 'a agc_scheme"
  doexecWP_F10 :: "'a agc_scheme \<Rightarrow> 'a agc_scheme"
  doexecWP_TPG :: "'a agc_scheme \<Rightarrow> 'a agc_scheme"
  clkAGC :: "'a agc_scheme \<Rightarrow> 'a agc_scheme"
  getEffectiveAddress :: "'a agc_scheme \<Rightarrow> unsigned"
  readMemory :: "unsigned \<Rightarrow> 'a agc_scheme \<Rightarrow> unsigned"
  writeMemory :: "unsigned \<Rightarrow> unsigned \<Rightarrow> 'a agc_scheme \<Rightarrow> 'a agc_scheme"

text \<open>
  Every call of a subsystem function is recorded, with the state it was called in, so that
  the order of the calls and the values they see can be stated. The record of calls is
  kept beside the state, out of reach of the subsystem functions.
\<close>

datatype callee =
  Call_controlPulseMatrix
  | Call_doexecR cpType
  | Call_doexecR_ALU cpType
  | Call_doexecR_ALU_OR cpType
  | Call_doexecW cpType
  | Call_doexecWP_SCL
  | Call_doexecWP_F17
  | Call_doexecWP_F13
  | Call_doexecWP_F10
  | Call_doexecWP_TPG
  | Call_clkAGC
  | Call_displayAGC
  | Call_writeMemory unsigned unsigned

type_synonym 'a traced = "(callee \<times> 'a agc_scheme) list \<times> 'a agc_scheme"

definition invoke :: "callee \<Rightarrow> ('a agc_scheme \<Rightarrow> 'a agc_scheme) \<Rightarrow> 'a traced \<Rightarrow> 'a traced" where
  "invoke c f t = (fst t @ [(c, snd t)], f (snd t))"

definition assign :: "('a agc_scheme \<Rightarrow> 'a agc_scheme) \<Rightarrow> 'a traced \<Rightarrow> 'a traced" where
  "assign f t = (fst t, f (snd t))"

section \<open>Control logic: genAGCStates\<close>

text \<open>
  One dispatch sweep of \<^verbatim>\<open>genAGCStates\<close>:
  \<^verbatim>\<open>for (i = 0; i < MAXPULSES && SEQ::glbl_cp[i] != NO_PULSE; i++) h(SEQ::glbl_cp[i]);\<close>
  The array is read again in every iteration, in the state the handlers have left.
\<close>

function sweep :: "nat \<Rightarrow> (cpType \<Rightarrow> callee) \<Rightarrow> (cpType \<Rightarrow> 'a agc_scheme \<Rightarrow> 'a agc_scheme)
    \<Rightarrow> nat \<Rightarrow> 'a traced \<Rightarrow> 'a traced" where
  "sweep M c h i t =
     (if i < M \<and> glbl_cp (snd t) i \<noteq> NO_PULSE
      then sweep M c h (Suc i) (invoke (c (glbl_cp (snd t) i)) (h (glbl_cp (snd t) i)) t)
      else t)"
  by pat_completeness auto
termination
  by (relation "measure (\<lambda>(M, c, h, i, t). M - i)") auto

declare sweep.simps [simp del]

definition genAGCStates :: "'a subsystems \<Rightarrow> 'a traced \<Rightarrow> 'a traced" where
  "genAGCStates H t0 =
     (let t1 = invoke Call_controlPulseMatrix (controlPulseMatrix H) t0;
          t2 = assign (\<lambda>s. s\<lparr>READ_BUS := 0\<rparr>) t1;
          t3 = assign (\<lambda>s. s\<lparr>MEM_DATA_BUS := 0\<rparr>) t2;
          t4 = assign (\<lambda>s. s\<lparr>MEM_PARITY_BUS := 0\<rparr>) t3;
          t5 = sweep (MAXPULSES H) Call_doexecR (doexecR H) 0 t4;
          t6 = assign (\<lambda>s. s\<lparr>ALU_BUS := 0\<rparr>) t5;
          t7 = sweep (MAXPULSES H) Call_doexecR_ALU (doexecR_ALU H) 0 t6;
          t8 = assign (\<lambda>s. s\<lparr>WRITE_BUS := READ_BUS s\<rparr>) t7;
          t9 = sweep (MAXPULSES H) Call_doexecR_ALU_OR (doexecR_ALU_OR H) 0 t8;
          t10 = sweep (MAXPULSES H) Call_doexecW (doexecW H) 0 t9;
          t11 = invoke Call_doexecWP_SCL (doexecWP_SCL H) t10;
          t12 = invoke Call_doexecWP_F17 (doexecWP_F17 H) t11;
          t13 = invoke Call_doexecWP_F13 (doexecWP_F13 H) t12;
          t14 = invoke Call_doexecWP_F10 (doexecWP_F10 H) t13
      in invoke Call_doexecWP_TPG (doexecWP_TPG H) t14)"

section \<open>The C library functions the monitor uses\<close>

text \<open>
  The character classes of \<^verbatim>\<open>ctype.h\<close> in the C locale, and the conversions \<^verbatim>\<open>atoi\<close>,
  \<^verbatim>\<open>strtol\<close> and \<^verbatim>\<open>fscanf\<close> as the C standard describes them.
\<close>

datatype error =
  Awaiting_input
  | Buffer_overflow
  | Int_overflow
  | Out_of_bounds int
  | Out_of_fuel

definition isspace :: "char \<Rightarrow> bool" where
  "isspace c \<longleftrightarrow> c = CHR '' '' \<or> (9 \<le> (of_char c :: nat) \<and> (of_char c :: nat) \<le> 13)"

definition isprint :: "char \<Rightarrow> bool" where
  "isprint c \<longleftrightarrow> 32 \<le> (of_char c :: nat) \<and> (of_char c :: nat) \<le> 126"

definition isdigit :: "char \<Rightarrow> bool" where
  "isdigit c \<longleftrightarrow> 48 \<le> (of_char c :: nat) \<and> (of_char c :: nat) \<le> 57"

definition isoctal :: "char \<Rightarrow> bool" where
  "isoctal c \<longleftrightarrow> 48 \<le> (of_char c :: nat) \<and> (of_char c :: nat) \<le> 55"

definition digits_value :: "nat \<Rightarrow> string \<Rightarrow> nat" where
  "digits_value base ds = foldl (\<lambda>v c. v * base + ((of_char c :: nat) - 48)) 0 ds"

text \<open>The optional sign in front of a number: whether it is a minus, and what follows.\<close>

fun sign_prefix :: "string \<Rightarrow> bool \<times> string" where
  "sign_prefix [] = (False, [])"
| "sign_prefix (c # cs) =
     (if c = CHR ''-'' then (True, cs) else if c = CHR ''+'' then (False, cs) else (False, c # cs))"

definition INT_MAX :: int where "INT_MAX = 2147483647"
definition INT_MIN :: int where "INT_MIN = - 2147483648"

text \<open>\<^verbatim>\<open>long\<close> has 64 bits, as on the GNU targets the sources were ported to.\<close>

definition LONG_MAX :: int where "LONG_MAX = 9223372036854775807"
definition LONG_MIN :: int where "LONG_MIN = - 9223372036854775808"

text \<open>
  \<^verbatim>\<open>atoi\<close>: white space, an optional sign, decimal digits; 0 when there are no digits.
  A value outside \<^verbatim>\<open>int\<close> is undefined behaviour: the error \<open>Int_overflow\<close>.
\<close>

definition atoi :: "string \<Rightarrow> error + int" where
  "atoi str =
     (let (neg, u) = sign_prefix (dropWhile isspace str);
          v = int (digits_value 10 (takeWhile isdigit u));
          r = (if neg then - v else v)
      in if INT_MIN \<le> r \<and> r \<le> INT_MAX then Inr r else Inl Int_overflow)"

text \<open>
  \<^verbatim>\<open>strtol(b, 0, 8)\<close>: white space, an optional sign, octal digits; 0 when there are no
  digits; a value outside \<^verbatim>\<open>long\<close> is clamped.
\<close>

definition strtol8 :: "string \<Rightarrow> int" where
  "strtol8 str =
     (let (neg, u) = sign_prefix (dropWhile isspace str);
          v = int (digits_value 8 (takeWhile isoctal u))
      in if neg then max LONG_MIN (- v) else min LONG_MAX v)"

text \<open>
  One \<^verbatim>\<open>%o\<close> directive of \<^verbatim>\<open>fscanf\<close> on the rest of a stream: white space is skipped, then
  the longest run of an optional sign and octal digits is read. At the end of the stream
  the directive has an input failure; without a digit it has a matching failure, and a
  sign that was read is consumed. The value is stored into an \<^verbatim>\<open>unsigned\<close>, a minus sign
  negating it there; of a number too large for an \<^verbatim>\<open>unsigned\<close>, which the standard leaves
  undefined, the low 32 bits are kept.
\<close>

datatype conversion = Input_failure | Matching_failure | Converted unsigned

definition scan_octal :: "string \<Rightarrow> conversion \<times> string" where
  "scan_octal inp =
     (let t = dropWhile isspace inp
      in if t = [] then (Input_failure, [])
         else (let (neg, u) = sign_prefix t;
                   ds = takeWhile isoctal u
               in if ds = [] then (Matching_failure, u)
                  else (Converted (if neg then - of_nat (digits_value 8 ds)
                                   else of_nat (digits_value 8 ds)),
                        dropWhile isoctal u)))"

datatype scanf_result = EOF | Assigned nat

text \<open>
  \<^verbatim>\<open>fscanf(fp, "%o %o", &addr, &data)\<close>: the result, the two variables and the rest of the
  stream. \<^verbatim>\<open>EOF\<close> is returned only for an input failure before the first conversion.
\<close>

definition fscanf_oo :: "string \<Rightarrow> unsigned \<Rightarrow> unsigned \<Rightarrow> scanf_result \<times> unsigned \<times> unsigned \<times> string" where
  "fscanf_oo inp addr data =
     (case scan_octal inp of
        (Input_failure, r) \<Rightarrow> (EOF, addr, data, r)
      | (Matching_failure, r) \<Rightarrow> (Assigned 0, addr, data, r)
      | (Converted a, r) \<Rightarrow>
          (case scan_octal (dropWhile isspace r) of
             (Converted d, r') \<Rightarrow> (Assigned 2, a, d, r')
           | (_, r') \<Rightarrow> (Assigned 1, a, data, r')))"

section \<open>Simulation logic: the monitor of AGCmain.cpp\<close>

text \<open>What the monitor prints: with \<^verbatim>\<open>printw\<close> on the screen, with \<^verbatim>\<open>perror\<close> on stderr.\<close>

datatype printed = Printw string | Perror string

text \<open>
  The variables of \<^verbatim>\<open>AGCmain.cpp\<close>: its globals, the local \<^verbatim>\<open>singleClock\<close> of \<^verbatim>\<open>main\<close>,
  the static variables of \<^verbatim>\<open>updateAGCDisplay\<close>, what has been printed, and the state of
  the machine with the record of the calls made so far.
\<close>

record 'a driver =
  core :: "'a traced"
  filename :: string
  breakpointEnab :: bool
  breakpoint :: unsigned
  watchEnab :: bool
  watchAddr :: unsigned
  oldWatchValue :: unsigned
  singleClock :: bool
  displayTimeout :: bool
  clockCounter :: int
  displayOnce :: bool
  screen :: "printed list"

text \<open>
  \<^verbatim>\<open>getCommand\<close> on the keys typed: printable keys are stored in the 80-byte buffer
  \<^verbatim>\<open>s\<close>, a backspace (key 8) removes the last one, and the newline ends the command and
  stores the terminator. Nothing checks the buffer's end: a store at \<^verbatim>\<open>s[80]\<close> is an
  error. While no newline has been typed the function is still reading. The echo of the
  keys is not recorded.
\<close>

fun getCommand_loop :: "string \<Rightarrow> char list \<Rightarrow> error + string" where
  "getCommand_loop buf [] = Inl Awaiting_input"
| "getCommand_loop buf (key # keys) =
     (if key = CHR 0x0A then (if length buf < 80 then Inr buf else Inl Buffer_overflow)
      else if isprint key
        then (if length buf < 80 then getCommand_loop (buf @ [key]) keys else Inl Buffer_overflow)
      else if key = CHR 0x08 \<and> buf \<noteq> [] then getCommand_loop (butlast buf) keys
      else getCommand_loop buf keys)"

definition getCommand :: "char list \<Rightarrow> error + string" where
  "getCommand keys = getCommand_loop [] keys"

definition toggleBreakpoint :: "char list \<Rightarrow> 'a driver \<Rightarrow> error + 'a driver" where
  "toggleBreakpoint keys d =
     (if \<not> breakpointEnab d
      then (case getCommand keys of
              Inl e \<Rightarrow> Inl e
            | Inr b \<Rightarrow> Inr (d\<lparr>screen := screen d
                                 @ [Printw ''Set breakpoint: -- enter 14-bit CADR (octal): '',
                                    Printw [CHR 0x0A]],
                               breakpoint := word_of_int (strtol8 b),
                               breakpointEnab := True\<rparr>))
      else Inr (d\<lparr>screen := screen d @ [Printw (''Clearing breakpoint.'' @ [CHR 0x0A])],
                 breakpointEnab := False\<rparr>))"

text \<open>
  Modelled from the spec: the sizes of the request-line arrays are declared in headers
  that are not part of the sources at hand. The spec gives the lines as \<^verbatim>\<open>rupt[0..4]\<close>,
  \<^verbatim>\<open>pcUp[0..6]\<close> and \<^verbatim>\<open>pcDn[0..6]\<close>.
\<close>

definition rupt_size :: nat where "rupt_size = 5"
definition pcell_size :: nat where "pcell_size = 7"

text \<open>
  The three commands store into the array at the index typed, unchecked. A store outside
  the array is an error of the model.
\<close>

definition incrCntr :: "char list \<Rightarrow> 'a driver \<Rightarrow> error + 'a driver" where
  "incrCntr keys d =
     (case getCommand keys of
        Inl e \<Rightarrow> Inl e
      | Inr cntrname \<Rightarrow>
          (case atoi cntrname of
             Inl e \<Rightarrow> Inl e
           | Inr pc \<Rightarrow>
               if 0 \<le> pc \<and> pc < int pcell_size
               then Inr (d\<lparr>screen := screen d
                              @ [Printw ''Increment counter: -- enter pcell (0-19): '',
                                 Printw [CHR 0x0A]],
                            core := assign (\<lambda>s. s\<lparr>pcUp := (pcUp s)(nat pc := 1)\<rparr>) (core d)\<rparr>)
               else Inl (Out_of_bounds pc)))"

definition decrCntr :: "char list \<Rightarrow> 'a driver \<Rightarrow> error + 'a driver" where
  "decrCntr keys d =
     (case getCommand keys of
        Inl e \<Rightarrow> Inl e
      | Inr cntrname \<Rightarrow>
          (case atoi cntrname of
             Inl e \<Rightarrow> Inl e
           | Inr pc \<Rightarrow>
               if 0 \<le> pc \<and> pc < int pcell_size
               then Inr (d\<lparr>screen := screen d
                              @ [Printw ''Decrement counter: -- enter pcell (0-19): '',
                                 Printw [CHR 0x0A]],
                            core := assign (\<lambda>s. s\<lparr>pcDn := (pcDn s)(nat pc := 1)\<rparr>) (core d)\<rparr>)
               else Inl (Out_of_bounds pc)))"

definition interrupt :: "char list \<Rightarrow> 'a driver \<Rightarrow> error + 'a driver" where
  "interrupt keys d =
     (case getCommand keys of
        Inl e \<Rightarrow> Inl e
      | Inr iname \<Rightarrow>
          (case atoi iname of
             Inl e \<Rightarrow> Inl e
           | Inr v \<Rightarrow>
               if v - 1 < INT_MIN then Inl Int_overflow
               else (let i = v - 1
                     in if 0 \<le> i \<and> i < int rupt_size
                        then Inr (d\<lparr>screen := screen d
                                       @ [Printw ''Interrupt: -- enter priority (1-5): '',
                                          Printw [CHR 0x0A]],
                                     core := assign (\<lambda>s. s\<lparr>rupt := (rupt s)(nat i := 1)\<rparr>) (core d)\<rparr>)
                        else Inl (Out_of_bounds i))))"

text \<open>
  The loop of \<^verbatim>\<open>loadMemory\<close>:
  \<^verbatim>\<open>while (fscanf(fp, "%o %o", &addr, &data) != EOF) MEM::writeMemory(addr, data);\<close>
  It ends only when \<^verbatim>\<open>fscanf\<close> returns \<^verbatim>\<open>EOF\<close>, so it need not end: the first argument
  bounds the number of \<^verbatim>\<open>fscanf\<close> calls, and \<open>None\<close> says the bound was reached.
\<close>

fun load_loop :: "nat \<Rightarrow> 'a subsystems \<Rightarrow> string \<Rightarrow> unsigned \<Rightarrow> unsigned \<Rightarrow> 'a traced
    \<Rightarrow> 'a traced option" where
  "load_loop 0 H inp addr data t = None"
| "load_loop (Suc fuel) H inp addr data t =
     (case fscanf_oo inp addr data of
        (EOF, _) \<Rightarrow> Some t
      | (Assigned k, addr', data', rest) \<Rightarrow>
          load_loop fuel H rest addr' data'
            (invoke (Call_writeMemory addr' data') (writeMemory H addr' data') t))"

text \<open>
  \<^verbatim>\<open>loadMemory\<close>. \<open>fs\<close> gives the contents of the files that \<^verbatim>\<open>fopen\<close> can open for
  reading; \<open>addr0\<close> and \<open>data0\<close> are what the uninitialised locals \<^verbatim>\<open>addr\<close> and \<^verbatim>\<open>data\<close>
  hold. The name typed and the extension must fit the 80-byte buffer \<^verbatim>\<open>fname\<close>.
\<close>

definition loadMemory :: "nat \<Rightarrow> 'a subsystems \<Rightarrow> (string \<rightharpoonup> string) \<Rightarrow> unsigned \<Rightarrow> unsigned
    \<Rightarrow> char list \<Rightarrow> 'a driver \<Rightarrow> error + 'a driver" where
  "loadMemory fuel H fs addr0 data0 keys d =
     (case getCommand keys of
        Inl e \<Rightarrow> Inl e
      | Inr name \<Rightarrow>
          (let d1 = d\<lparr>filename := name,
                      screen := screen d @ [Printw ''Load Memory -- enter filename: '',
                                            Printw [CHR 0x0A]]\<rparr>;
               fname = name @ ''.obj''
           in if 80 \<le> length fname then Inl Buffer_overflow
              else (case fs fname of
                      None \<Rightarrow>
                        Inr (d1\<lparr>screen := screen d1
                                   @ [Perror ''fopen failed:'',
                                      Printw (''*** ERROR: Can't load memory for file: '' @ fname
                                              @ [CHR 0x0A])]\<rparr>)
                    | Some contents \<Rightarrow>
                        (case load_loop fuel H contents addr0 data0 (core d1) of
                           None \<Rightarrow> Inl Out_of_fuel
                         | Some t \<Rightarrow>
                             Inr (d1\<lparr>core := t,
                                      screen := screen d1
                                        @ [Printw (''Memory loaded.'' @ [CHR 0x0A])]\<rparr>)))))"

section \<open>The driver loop of main\<close>

text \<open>\<^verbatim>\<open>MON::displayAGC\<close> prints the state and changes nothing.\<close>

definition displayAGC :: "'a driver \<Rightarrow> 'a driver" where
  "displayAGC d = d\<lparr>core := invoke Call_displayAGC (\<lambda>s. s) (core d)\<rparr>"

text \<open>
  \<^verbatim>\<open>updateAGCDisplay\<close>. \<open>elapsed\<close> is what \<^verbatim>\<open>checkElapsedTime(2)\<close> returns, which depends on
  the host's clock.
\<close>

definition updateAGCDisplay :: "bool \<Rightarrow> 'a driver \<Rightarrow> 'a driver" where
  "updateAGCDisplay elapsed d0 =
     (let d1 = (if elapsed then d0\<lparr>displayTimeout := True\<rparr> else d0);
          s = snd (core d1)
      in if FCLK (mon s) \<noteq> 0
         then (if RUN (mon s) \<noteq> 0
               then (if displayTimeout d1 \<or> dskyChanged s
                     then (let d2 = d1\<lparr>clockCounter := clockCounter d1 + 1\<rparr>
                           in if (register_SG s = TP12 \<and> register_SNI s = 1)
                                 \<or> register_SG s = STBY \<or> clockCounter d2 > 500 \<or> dskyChanged s
                              then (let d3 = displayAGC d2
                                    in d3\<lparr>displayTimeout := False, clockCounter := 0,
                                          core := assign (\<lambda>s. s\<lparr>dskyChanged := False\<rparr>) (core d3)\<rparr>)
                              else d2)
                     else d1)
               else (if register_SG s = WAIT
                     then (if \<not> displayOnce d1
                           then (displayAGC d1)\<lparr>displayOnce := True, clockCounter := 0\<rparr>
                           else d1)
                     else d1\<lparr>displayOnce := False\<rparr>))
         else displayAGC d1)"

text \<open>
  The body of the inner \<^verbatim>\<open>do ... while\<close> loop of \<^verbatim>\<open>main\<close>, but for the counter: one
  clock, the control pulses of the new state, the breakpoint check and the watch check.
\<close>

definition tick :: "'a subsystems \<Rightarrow> 'a driver \<Rightarrow> 'a driver" where
  "tick H d0 =
     (let d1 = d0\<lparr>core := invoke Call_clkAGC (clkAGC H) (core d0)\<rparr>;
          d2 = d1\<lparr>singleClock := False\<rparr>;
          d3 = d2\<lparr>core := genAGCStates H (core d2)\<rparr>;
          d4 = (if breakpointEnab d3 \<and> breakpoint d3 = getEffectiveAddress H (snd (core d3))
                then d3\<lparr>core := assign (\<lambda>s. s\<lparr>mon := (mon s)\<lparr>RUN := 0\<rparr>\<rparr>) (core d3)\<rparr>
                else d3)
      in if watchEnab d4
         then (let newWatchValue = readMemory H (watchAddr d4) (snd (core d4));
                   d5 = (if newWatchValue \<noteq> oldWatchValue d4
                         then d4\<lparr>core := assign (\<lambda>s. s\<lparr>mon := (mon s)\<lparr>RUN := 0\<rparr>\<rparr>) (core d4)\<rparr>
                         else d4)
               in d5\<lparr>oldWatchValue := newWatchValue\<rparr>)
         else d4)"

text \<open>
  The inner loop:
  \<^verbatim>\<open>int genStateCntr = 100; do { ...; genStateCntr--; ... } while (MON::FCLK && MON::RUN && genStateCntr > 0);\<close>
  The second argument is the value of \<^verbatim>\<open>genStateCntr\<close> when the body is entered.
\<close>

function batch :: "'a subsystems \<Rightarrow> int \<Rightarrow> 'a driver \<Rightarrow> 'a driver" where
  "batch H genStateCntr d =
     (if FCLK (mon (snd (core (tick H d)))) \<noteq> 0 \<and> RUN (mon (snd (core (tick H d)))) \<noteq> 0
         \<and> genStateCntr - 1 > 0
      then batch H (genStateCntr - 1) (tick H d)
      else tick H d)"
  by pat_completeness auto
termination
  by (relation "measure (\<lambda>(H, genStateCntr, d). nat genStateCntr)") auto

declare batch.simps [simp del]

text \<open>
  One pass of the \<^verbatim>\<open>while (!_kbhit())\<close> loop: a batch of ticks and the display when the
  clock runs or a single clock was asked for, and then the release of the single step
  switch.
\<close>

definition clock_batch :: "'a subsystems \<Rightarrow> bool \<Rightarrow> 'a driver \<Rightarrow> 'a driver" where
  "clock_batch H elapsed d =
     (if FCLK (mon (snd (core d))) \<noteq> 0 \<or> singleClock d
      then updateAGCDisplay elapsed (batch H 100 d)
      else d)"

definition poll_iteration :: "'a subsystems \<Rightarrow> bool \<Rightarrow> 'a driver \<Rightarrow> 'a driver" where
  "poll_iteration H elapsed d =
     (let d1 = clock_batch H elapsed d
      in if STEP (mon (snd (core d1))) \<noteq> 0 \<and> register_SG (snd (core d1)) = TP1
         then d1\<lparr>core := assign (\<lambda>s. s\<lparr>mon := (mon s)\<lparr>STEP := 0\<rparr>\<rparr>) (core d1)\<rparr>
         else d1)"

section \<open>The monitor subsystem of MON.cpp\<close>

text \<open>The initial values of the monitor switches.\<close>

definition MON_power_on :: MON where
  "MON_power_on = \<lparr> PURST = 1, RUN = 0, STEP = 0, INST = 1, FCLK = 0, SA = 0, SCL_ENAB = 1 \<rparr>"

text \<open>
  The indicator characters that \<^verbatim>\<open>MON::displayAGC\<close> derives from register OUT1. The masks
  are the octal constants 0400, 0100, 020, 004 and 001 of the source.
\<close>

record indicators =
  progAlm :: char
  compFail :: char
  keyRels :: char
  upTl :: char
  comp_acty :: char

definition octal :: "nat list \<Rightarrow> unsigned" where
  "octal ds = of_nat (foldl (\<lambda>v k. v * 8 + k) 0 ds)"

definition displayAGC_indicators :: "'a agc_scheme \<Rightarrow> indicators" where
  "displayAGC_indicators s =
     \<lparr> progAlm = (if register_OUT1 s AND octal [4, 0, 0] \<noteq> 0 then CHR ''*'' else CHR '' ''),
       compFail = (if register_OUT1 s AND octal [1, 0, 0] \<noteq> 0 then CHR ''*'' else CHR '' ''),
       keyRels = (if register_OUT1 s AND octal [2, 0] \<noteq> 0 then CHR ''*'' else CHR '' ''),
       upTl = (if register_OUT1 s AND octal [0, 0, 4] \<noteq> 0 then CHR ''*'' else CHR '' ''),
       comp_acty = (if register_OUT1 s AND octal [0, 0, 1] \<noteq> 0 then CHR ''*'' else CHR '' '') \<rparr>"

section \<open>A concrete machine for the evaluated examples\<close>

definition demo_state :: agc where
  "demo_state =
     \<lparr> mon = MON_power_on\<lparr>RUN := 1, FCLK := 1\<rparr>,
       READ_BUS = 5, WRITE_BUS = 6, MEM_DATA_BUS = 7, MEM_PARITY_BUS = 1, ALU_BUS = 9,
       glbl_cp = (\<lambda>i. NO_PULSE), register_SG = TP5, register_SNI = 0, register_OUT1 = 0,
       dskyChanged = False, rupt = (\<lambda>i. 0), pcUp = (\<lambda>i. 0), pcDn = (\<lambda>i. 0) \<rparr>"

definition demo_subsystems :: "unit subsystems" where
  "demo_subsystems =
     \<lparr> MAXPULSES = 4,
       controlPulseMatrix =
         (\<lambda>s. s\<lparr>glbl_cp := (\<lambda>i. if i = 0 then CP 1 else if i = 1 then CP 2 else NO_PULSE)\<rparr>),
       doexecR = (\<lambda>p s. s\<lparr>READ_BUS := READ_BUS s OR (case p of CP k \<Rightarrow> of_nat k | NO_PULSE \<Rightarrow> 0)\<rparr>),
       doexecR_ALU = (\<lambda>p s. s\<lparr>ALU_BUS := ALU_BUS s + 1\<rparr>),
       doexecR_ALU_OR = (\<lambda>p s. s\<lparr>WRITE_BUS := WRITE_BUS s OR ALU_BUS s\<rparr>),
       doexecW = (\<lambda>p s. s\<lparr>register_OUT1 := WRITE_BUS s\<rparr>),
       doexecWP_SCL = (\<lambda>s. s),
       doexecWP_F17 = (\<lambda>s. s),
       doexecWP_F13 = (\<lambda>s. s),
       doexecWP_F10 = (\<lambda>s. s),
       doexecWP_TPG = (\<lambda>s. s\<lparr>register_SG := TP6\<rparr>),
       clkAGC = (\<lambda>s. s),
       getEffectiveAddress = (\<lambda>s. 1024),
       readMemory = (\<lambda>a s. 0),
       writeMemory = (\<lambda>a v s. s) \<rparr>"

definition demo_driver :: "unit driver" where
  "demo_driver =
     \<lparr> core = ([], demo_state), filename = [], breakpointEnab = True, breakpoint = 1024,
       watchEnab = False, watchAddr = 0, oldWatchValue = 0, singleClock = False,
       displayTimeout = False, clockCounter = 0, displayOnce = False, screen = [] \<rparr>"

definition stepping_driver :: "unit driver" where
  "stepping_driver =
     demo_driver\<lparr>core := ([], demo_state\<lparr>mon := MON_power_on\<lparr>STEP := 1\<rparr>, register_SG := TP1\<rparr>)\<rparr>"




section \<open>Properties of the dispatch sweeps\<close>








lemma assign_simps: "fst (assign f t) = fst t" "snd (assign f t) = f (snd t)"
  by (simp_all add: assign_def)










section \<open>The order of the calls within one tick\<close>




subsection \<open>One tick of the concrete machine\<close>






section \<open>The driver loop\<close>






text \<open>
  C4. The breakpoint check of the driver loop does not look at the timing pulse: when the
  breakpoint is enabled and equals the effective address after a tick, \<open>RUN\<close> is forced
  to 0 whatever \<open>register_SG\<close> reads, so the machine also halts on addresses seen at
  timing pulses other than TP1. On the concrete machine the breakpoint 2000 (octal) is set
  with \<open>toggleBreakpoint\<close>, and the tick that ends at TP6 halts.
\<close>

theorem breakpoint_halts_at_any_timing_pulse:
  assumes "breakpointEnab d"
    and "breakpoint d
           = getEffectiveAddress H (snd (genAGCStates H (invoke Call_clkAGC (clkAGC H) (core d))))"
  shows "RUN (mon (snd (core (tick H d)))) = 0"
  using assms by (simp add: tick_def Let_def assign_simps)

theorem breakpoint_halts_at_any_timing_pulse_witness:
  "map_sum id (\<lambda>d. d\<lparr>screen := []\<rparr>)
      (toggleBreakpoint (''2000'' @ [CHR 0x0A]) (demo_driver\<lparr>breakpointEnab := False, breakpoint := 0\<rparr>))
     = Inr demo_driver
   \<and> RUN (mon (snd (core demo_driver))) = 1
   \<and> register_SG (snd (core (tick demo_subsystems demo_driver))) = TP6
   \<and> RUN (mon (snd (core (tick demo_subsystems demo_driver)))) = 0"
proof -
  have "breakpointEnab demo_driver"
    by (simp add: demo_driver_def)
  moreover have "breakpoint demo_driver = getEffectiveAddress demo_subsystems
      (snd (genAGCStates demo_subsystems
         (invoke Call_clkAGC (clkAGC demo_subsystems) (core demo_driver))))"
    by (simp add: demo_driver_def demo_subsystems_def)
  ultimately have "RUN (mon (snd (core (tick demo_subsystems demo_driver)))) = 0"
    by (rule breakpoint_halts_at_any_timing_pulse)
  moreover have "RUN (mon (snd (core demo_driver))) = 1"
    by (simp add: demo_driver_def demo_state_def MON_power_on_def)
  moreover have "register_SG (snd (core (tick demo_subsystems demo_driver))) = TP6"
    by (simp add: tick_def genAGCStates_def demo_driver_def demo_subsystems_def
      demo_state_def MON_power_on_def invoke_def assign_def sweep.simps)
  moreover have "map_sum id (\<lambda>d. d\<lparr>screen := []\<rparr>)
      (toggleBreakpoint (''2000'' @ [CHR 0x0A]) (demo_driver\<lparr>breakpointEnab := False, breakpoint := 0\<rparr>))
     = Inr demo_driver"
    by (simp add: toggleBreakpoint_def getCommand_def isprint_def strtol8_def isspace_def
        isoctal_def digits_value_def LONG_MAX_def demo_driver_def)
  ultimately show ?thesis by simp
qed

text \<open>
  C10. When the single step switch \<open>STEP\<close> is set and \<open>register_SG\<close> reads TP1 at the
  poll point of the driver loop, after the batch of ticks, the loop clears \<open>STEP\<close>; after
  every pass of the loop it is never the case that \<open>STEP\<close> is set while \<open>register_SG\<close>
  reads TP1; and otherwise the pass changes nothing after the batch.
\<close>

theorem STEP_released_at_TP1:
  "(STEP (mon (snd (core (clock_batch H e d)))) \<noteq> 0
      \<and> register_SG (snd (core (clock_batch H e d))) = TP1
    \<longrightarrow> STEP (mon (snd (core (poll_iteration H e d)))) = 0)
   \<and> \<not> (STEP (mon (snd (core (poll_iteration H e d)))) \<noteq> 0
        \<and> register_SG (snd (core (poll_iteration H e d))) = TP1)
   \<and> (\<not> (STEP (mon (snd (core (clock_batch H e d)))) \<noteq> 0
           \<and> register_SG (snd (core (clock_batch H e d))) = TP1)
      \<longrightarrow> poll_iteration H e d = clock_batch H e d)"
  by (simp add: poll_iteration_def Let_def assign_simps)

theorem STEP_released_at_TP1_witness:
  "STEP (mon (snd (core stepping_driver))) = 1
   \<and> register_SG (snd (core stepping_driver)) = TP1
   \<and> STEP (mon (snd (core (poll_iteration demo_subsystems False stepping_driver)))) = 0"
proof -
  have same: "clock_batch demo_subsystems False stepping_driver = stepping_driver"
    by (simp add: clock_batch_def stepping_driver_def demo_driver_def demo_state_def
        MON_power_on_def)
  have before: "STEP (mon (snd (core stepping_driver))) = 1
      \<and> register_SG (snd (core stepping_driver)) = TP1"
    by (simp add: stepping_driver_def demo_driver_def demo_state_def MON_power_on_def)
  then have "STEP (mon (snd (core (poll_iteration demo_subsystems False stepping_driver)))) = 0"
    using STEP_released_at_TP1 [of demo_subsystems False stepping_driver] by (simp add: same)
  with before show ?thesis by simp
qed

section \<open>The monitor switches and the display\<close>

text \<open>
  C5, as the code has it. At power-on the monitor switches \<open>RUN\<close>, \<open>STEP\<close>, \<open>FCLK\<close> and
  \<open>SA\<close> are 0, and \<open>PURST\<close>, \<open>INST\<close> and \<open>SCL_ENAB\<close> are 1.
\<close>

theorem MON_power_on_values:
  "PURST MON_power_on = 1 \<and> INST MON_power_on = 1 \<and> SCL_ENAB MON_power_on = 1
   \<and> RUN MON_power_on = 0 \<and> STEP MON_power_on = 0 \<and> FCLK MON_power_on = 0
   \<and> SA MON_power_on = 0"
  by (simp add: MON_power_on_def)

text \<open>\<open>PURST\<close> is not the only switch that starts at 1: \<open>INST\<close> and \<open>SCL_ENAB\<close> do too.\<close>

theorem MON_power_on_not_all_zero:
  "\<not> (PURST MON_power_on = 1 \<and> RUN MON_power_on = 0 \<and> STEP MON_power_on = 0
      \<and> INST MON_power_on = 0 \<and> FCLK MON_power_on = 0 \<and> SA MON_power_on = 0
      \<and> SCL_ENAB MON_power_on = 0)"
  by (simp add: MON_power_on_def)

lemma octal_masks:
  "octal [0, 0, 1] = 2 ^ 0" "octal [0, 0, 4] = 2 ^ 2" "octal [2, 0] = 2 ^ 4"
  "octal [1, 0, 0] = 2 ^ 6" "octal [4, 0, 0] = 2 ^ 8"
  by (simp_all add: octal_def)

lemma mask_test: "(w AND 2 ^ n \<noteq> 0) = bit w n" for w :: unsigned
  by (simp add: and_exp_eq_0_iff_not_bit)

text \<open>
  C9. \<open>displayAGC\<close> derives the indicator flags from register OUT1 by testing exactly
  bit 0 for COMP ACTY, bit 2 for UPLINK ACTY, bit 4 for KEY REL, bit 6 for OPER ERR
  (check fail) and bit 8 for PROG ALM: the octal masks 001, 004, 020, 0100 and 0400.
\<close>

theorem displayAGC_indicator_bits:
  "comp_acty (displayAGC_indicators s) = (if bit (register_OUT1 s) 0 then CHR ''*'' else CHR '' '')
   \<and> upTl (displayAGC_indicators s) = (if bit (register_OUT1 s) 2 then CHR ''*'' else CHR '' '')
   \<and> keyRels (displayAGC_indicators s) = (if bit (register_OUT1 s) 4 then CHR ''*'' else CHR '' '')
   \<and> compFail (displayAGC_indicators s) = (if bit (register_OUT1 s) 6 then CHR ''*'' else CHR '' '')
   \<and> progAlm (displayAGC_indicators s) = (if bit (register_OUT1 s) 8 then CHR ''*'' else CHR '' '')"
  unfolding displayAGC_indicators_def octal_masks mask_test by simp

theorem displayAGC_indicator_bits_witness:
  "displayAGC_indicators (demo_state\<lparr>register_OUT1 := octal [5, 2, 5]\<rparr>)
     = \<lparr> progAlm = CHR ''*'', compFail = CHR ''*'', keyRels = CHR ''*'', upTl = CHR ''*'',
         comp_acty = CHR ''*'' \<rparr>
   \<and> displayAGC_indicators (demo_state\<lparr>register_OUT1 := octal [7, 2, 5, 2]\<rparr>)
     = \<lparr> progAlm = CHR '' '', compFail = CHR '' '', keyRels = CHR '' '', upTl = CHR '' '',
         comp_acty = CHR '' '' \<rparr>"
  using displayAGC_indicator_bits [of "demo_state\<lparr>register_OUT1 := octal [5, 2, 5]\<rparr>"]
    displayAGC_indicator_bits [of "demo_state\<lparr>register_OUT1 := octal [7, 2, 5, 2]\<rparr>"]
  by (simp add: displayAGC_indicators_def octal_def)

section \<open>The memory loader\<close>

text \<open>
  C6, as the code has it. When the file cannot be opened, \<open>loadMemory\<close> reports the error
  and returns without mutating memory: no call of \<open>writeMemory\<close> is made and the machine
  state is as it was. This holds for every bound on the loop, which is never entered.
\<close>

theorem loadMemory_unopened_file:
  assumes "getCommand keys = Inr name"
    and "length (name @ ''.obj'') < 80"
    and "fs (name @ ''.obj'') = None"
  shows "\<exists>d'. loadMemory fuel H fs addr0 data0 keys d = Inr d'
           \<and> core d' = core d
           \<and> screen d' = screen d
                @ [Printw ''Load Memory -- enter filename: '', Printw [CHR 0x0A],
                   Perror ''fopen failed:'',
                   Printw (''*** ERROR: Can't load memory for file: '' @ name @ ''.obj''
                           @ [CHR 0x0A])]"
  using assms by (simp add: loadMemory_def Let_def)

theorem loadMemory_unopened_file_witness:
  "map_sum id (\<lambda>d. (core d, screen d))
     (loadMemory 0 demo_subsystems [''rope.obj'' \<mapsto> ''002000 012345''] 0 0
        (''tec'' @ [CHR 0x0A]) demo_driver)
   = Inr (core demo_driver,
          screen demo_driver
            @ [Printw ''Load Memory -- enter filename: '', Printw [CHR 0x0A],
               Perror ''fopen failed:'',
               Printw (''*** ERROR: Can't load memory for file: tec.obj'' @ [CHR 0x0A])])"
proof -
  have cmd: "getCommand (''tec'' @ [CHR 0x0A]) = Inr ''tec''"
    by (simp add: getCommand_def isprint_def)
  have "length (''tec'' @ ''.obj'') < 80" by simp
  moreover have "[''rope.obj'' \<mapsto> ''002000 012345''] (''tec'' @ ''.obj'') = None" by simp
  ultimately obtain d' where
    "loadMemory 0 demo_subsystems [''rope.obj'' \<mapsto> ''002000 012345''] 0 0
        (''tec'' @ [CHR 0x0A]) demo_driver = Inr d'"
    and "core d' = core demo_driver"
    and "screen d' = screen demo_driver
                @ [Printw ''Load Memory -- enter filename: '', Printw [CHR 0x0A],
                   Perror ''fopen failed:'',
                   Printw (''*** ERROR: Can't load memory for file: '' @ ''tec'' @ ''.obj''
                           @ [CHR 0x0A])]"
    using loadMemory_unopened_file [OF cmd] by blast
  then show ?thesis by simp
qed

text \<open>
  The contents of a file that opens are not checked: a file that holds an address without
  its data is not a well-formed record, and \<open>writeMemory\<close> is called for it, with
  whatever \<open>data\<close> held.
\<close>

theorem loadMemory_writes_malformed_record:
  "map_sum id (\<lambda>d. map fst (fst (core d)))
     (loadMemory 2 demo_subsystems [''bad.obj'' \<mapsto> ''002000''] 0 0 (''bad'' @ [CHR 0x0A])
        demo_driver)
   = Inr [Call_writeMemory 1024 0]"
  by (simp add: loadMemory_def getCommand_def isprint_def fscanf_oo_def scan_octal_def
      isspace_def isoctal_def digits_value_def demo_driver_def demo_subsystems_def invoke_def
      eval_nat_numeral)

text \<open>
  On the contents \<^verbatim>\<open>zz\<close>, which no \<^verbatim>\<open>%o\<close> matches, the loop never ends: no bound is
  enough.
\<close>

lemma load_loop_garbage:
  "load_loop fuel H ''zz'' addr data t = None"
proof (induction fuel arbitrary: t)
  case 0
  show ?case by simp
next
  case (Suc fuel)
  have "fscanf_oo ''zz'' addr data = (Assigned 0, addr, data, ''zz'')"
    by (simp add: fscanf_oo_def scan_octal_def isspace_def isoctal_def)
  then show ?case using Suc.IH by simp
qed

section \<open>The request lines\<close>

text \<open>
  C7, as the code has it. The monitor commands index the request-line arrays with the
  number typed, unchecked. For a priority \<open>v\<close> from 1 to 5 the interrupt command sets
  exactly \<open>rupt[v - 1]\<close>, and for a cell \<open>v\<close> from 0 to 6 the counter commands set exactly
  \<open>pcUp[v]\<close> and \<open>pcDn[v]\<close>, and nothing else of the machine state changes; for every
  other number the store is outside the array.
\<close>

theorem request_line_commands_unchecked:
  assumes "getCommand keys = Inr txt" and "atoi txt = Inr v"
  shows "(1 \<le> v \<and> v \<le> 5 \<longrightarrow>
            (\<exists>d'. interrupt keys d = Inr d' \<and> fst (core d') = fst (core d)
               \<and> snd (core d') = (snd (core d))\<lparr>rupt := (rupt (snd (core d)))(nat (v - 1) := 1)\<rparr>))
       \<and> (\<not> (1 \<le> v \<and> v \<le> 5) \<longrightarrow> (\<exists>e. interrupt keys d = Inl e))
       \<and> (0 \<le> v \<and> v \<le> 6 \<longrightarrow>
            (\<exists>d'. incrCntr keys d = Inr d' \<and> fst (core d') = fst (core d)
               \<and> snd (core d') = (snd (core d))\<lparr>pcUp := (pcUp (snd (core d)))(nat v := 1)\<rparr>))
       \<and> (\<not> (0 \<le> v \<and> v \<le> 6) \<longrightarrow> incrCntr keys d = Inl (Out_of_bounds v))
       \<and> (0 \<le> v \<and> v \<le> 6 \<longrightarrow>
            (\<exists>d'. decrCntr keys d = Inr d' \<and> fst (core d') = fst (core d)
               \<and> snd (core d') = (snd (core d))\<lparr>pcDn := (pcDn (snd (core d)))(nat v := 1)\<rparr>))
       \<and> (\<not> (0 \<le> v \<and> v \<le> 6) \<longrightarrow> decrCntr keys d = Inl (Out_of_bounds v))"
proof -
  have i: "1 \<le> v \<and> v \<le> 5 \<longrightarrow>
            (\<exists>d'. interrupt keys d = Inr d' \<and> fst (core d') = fst (core d)
               \<and> snd (core d') = (snd (core d))\<lparr>rupt := (rupt (snd (core d)))(nat (v - 1) := 1)\<rparr>)"
    using assms by (simp add: interrupt_def Let_def rupt_size_def INT_MIN_def assign_simps)
  have i': "\<not> (1 \<le> v \<and> v \<le> 5) \<longrightarrow> (\<exists>e. interrupt keys d = Inl e)"
    using assms by (auto simp add: interrupt_def Let_def rupt_size_def)
  have u: "0 \<le> v \<and> v \<le> 6 \<longrightarrow>
            (\<exists>d'. incrCntr keys d = Inr d' \<and> fst (core d') = fst (core d)
               \<and> snd (core d') = (snd (core d))\<lparr>pcUp := (pcUp (snd (core d)))(nat v := 1)\<rparr>)"
    using assms by (simp add: incrCntr_def pcell_size_def assign_simps)
  have u': "\<not> (0 \<le> v \<and> v \<le> 6) \<longrightarrow> incrCntr keys d = Inl (Out_of_bounds v)"
    using assms by (auto simp add: incrCntr_def pcell_size_def)
  have n: "0 \<le> v \<and> v \<le> 6 \<longrightarrow>
            (\<exists>d'. decrCntr keys d = Inr d' \<and> fst (core d') = fst (core d)
               \<and> snd (core d') = (snd (core d))\<lparr>pcDn := (pcDn (snd (core d)))(nat v := 1)\<rparr>)"
    using assms by (simp add: decrCntr_def pcell_size_def assign_simps)
  have n': "\<not> (0 \<le> v \<and> v \<le> 6) \<longrightarrow> decrCntr keys d = Inl (Out_of_bounds v)"
    using assms by (auto simp add: decrCntr_def pcell_size_def)
  from i i' u u' n n' show ?thesis by (intro conjI)
qed

theorem request_line_commands_unchecked_witness:
  "map_sum id (\<lambda>d. map (rupt (snd (core d))) [0, 1, 2, 3, 4])
      (interrupt (''3'' @ [CHR 0x0A]) demo_driver) = Inr [0, 0, 1, 0, 0]
   \<and> map_sum id (\<lambda>d. map (pcUp (snd (core d))) [0, 1, 2, 3, 4, 5, 6])
      (incrCntr (''3'' @ [CHR 0x0A]) demo_driver) = Inr [0, 0, 0, 1, 0, 0, 0]
   \<and> map_sum id (\<lambda>d. map (pcDn (snd (core d))) [0, 1, 2, 3, 4, 5, 6])
      (decrCntr (''3'' @ [CHR 0x0A]) demo_driver) = Inr [0, 0, 0, 1, 0, 0, 0]"
proof -
  have cmd: "getCommand (''3'' @ [CHR 0x0A]) = Inr ''3''"
    by (simp add: getCommand_def isprint_def)
  have num: "atoi ''3'' = Inr 3"
    by (simp add: atoi_def isspace_def isdigit_def digits_value_def INT_MAX_def INT_MIN_def)
  note inst = request_line_commands_unchecked [OF cmd num, of demo_driver]
  from inst obtain d1 where "interrupt (''3'' @ [CHR 0x0A]) demo_driver = Inr d1"
    and "snd (core d1) = (snd (core demo_driver))\<lparr>rupt := (rupt (snd (core demo_driver)))(nat (3 - 1) := 1)\<rparr>"
    by auto
  then have a: "map_sum id (\<lambda>d. map (rupt (snd (core d))) [0, 1, 2, 3, 4])
      (interrupt (''3'' @ [CHR 0x0A]) demo_driver) = Inr [0, 0, 1, 0, 0]"
    by (simp add: demo_driver_def demo_state_def)
  from inst obtain d2 where "incrCntr (''3'' @ [CHR 0x0A]) demo_driver = Inr d2"
    and "snd (core d2) = (snd (core demo_driver))\<lparr>pcUp := (pcUp (snd (core demo_driver)))(nat 3 := 1)\<rparr>"
    by auto
  then have b: "map_sum id (\<lambda>d. map (pcUp (snd (core d))) [0, 1, 2, 3, 4, 5, 6])
      (incrCntr (''3'' @ [CHR 0x0A]) demo_driver) = Inr [0, 0, 0, 1, 0, 0, 0]"
    by (simp add: demo_driver_def demo_state_def)
  from inst obtain d3 where "decrCntr (''3'' @ [CHR 0x0A]) demo_driver = Inr d3"
    and "snd (core d3) = (snd (core demo_driver))\<lparr>pcDn := (pcDn (snd (core demo_driver)))(nat 3 := 1)\<rparr>"
    by auto
  then have c: "map_sum id (\<lambda>d. map (pcDn (snd (core d))) [0, 1, 2, 3, 4, 5, 6])
      (decrCntr (''3'' @ [CHR 0x0A]) demo_driver) = Inr [0, 0, 0, 1, 0, 0, 0]"
    by (simp add: demo_driver_def demo_state_def)
  from a b c show ?thesis by (intro conjI)
qed

text \<open>
  Numbers outside the ranges are accepted: 7 and 19, which the prompt of the counter
  commands allows, and priority 0 index outside the arrays.
\<close>

theorem request_line_commands_out_of_range:
  "incrCntr (''7'' @ [CHR 0x0A]) demo_driver = Inl (Out_of_bounds 7)
   \<and> decrCntr (''19'' @ [CHR 0x0A]) demo_driver = Inl (Out_of_bounds 19)
   \<and> interrupt (''0'' @ [CHR 0x0A]) demo_driver = Inl (Out_of_bounds (- 1))"
  by (simp add: incrCntr_def decrCntr_def interrupt_def getCommand_def isprint_def atoi_def
      isspace_def isdigit_def digits_value_def INT_MAX_def INT_MIN_def pcell_size_def
      rupt_size_def)

end
